theory Spec2Isabelle
  imports Complex_Main
begin

section \<open>Python values, strings and exceptions\<close>

text \<open>
  The importer (\<^verbatim>\<open>chembl_importer.py\<close>) and the query utility (\<^verbatim>\<open>chembl_query.py\<close>) pass
  compound records around as Python dictionaries.  A dictionary is a map from key strings to
  values; the values that the ChEMBL JSON carries under the keys the code reads are
  \<^verbatim>\<open>None\<close>, booleans, integers and strings.  Strings are lists of 8-bit characters, so
  the model covers ASCII text.
\<close>

datatype pyval = PyNone | PyBool bool | PyInt int | PyStr string

type_synonym pydict = "string \<rightharpoonup> pyval"

text \<open>Exceptions: the two the code can raise itself, and any exception of a collaborator.\<close>

datatype py_error =
    KeyError string
  | ValueError string
  | TypeError string
  | ExternalError string

text \<open>\<^verbatim>\<open>str(e)\<close>: a \<^verbatim>\<open>KeyError\<close> prints the \<^verbatim>\<open>repr\<close> of its key.\<close>

fun exc_str :: "py_error \<Rightarrow> string" where
  "exc_str (KeyError k) = [CHR 0x27] @ k @ [CHR 0x27]"
| "exc_str (ValueError m) = m"
| "exc_str (TypeError m) = m"
| "exc_str (ExternalError m) = m"

text \<open>Truth value testing, as \<^verbatim>\<open>if x:\<close> does it.\<close>

fun py_truthy :: "pyval \<Rightarrow> bool" where
  "py_truthy PyNone = False"
| "py_truthy (PyBool b) = b"
| "py_truthy (PyInt n) = (n \<noteq> 0)"
| "py_truthy (PyStr s) = (s \<noteq> [])"

definition digit_char :: "nat \<Rightarrow> char" where
  "digit_char d =
     (if d = 0 then CHR ''0'' else if d = 1 then CHR ''1'' else if d = 2 then CHR ''2''
      else if d = 3 then CHR ''3'' else if d = 4 then CHR ''4'' else if d = 5 then CHR ''5''
      else if d = 6 then CHR ''6'' else if d = 7 then CHR ''7'' else if d = 8 then CHR ''8''
      else CHR ''9'')"

fun str_of_nat :: "nat \<Rightarrow> string" where
  "str_of_nat n =
     (if n < 10 then [digit_char n] else str_of_nat (n div 10) @ [digit_char (n mod 10)])"

definition str_of_int :: "int \<Rightarrow> string" where
  "str_of_int i = (if i < 0 then CHR ''-'' # str_of_nat (nat (- i)) else str_of_nat (nat i))"

text \<open>\<^verbatim>\<open>str(x)\<close>, which is what an f-string replacement field \<^verbatim>\<open>{x}\<close> inserts.\<close>

fun py_str :: "pyval \<Rightarrow> string" where
  "py_str PyNone = ''None''"
| "py_str (PyBool b) = (if b then ''True'' else ''False'')"
| "py_str (PyInt n) = str_of_int n"
| "py_str (PyStr s) = s"

text \<open>\<^verbatim>\<open>d.get(key, default)\<close>.\<close>

definition dict_get :: "pydict \<Rightarrow> string \<Rightarrow> pyval \<Rightarrow> pyval" where
  "dict_get d k dflt = (case d k of None \<Rightarrow> dflt | Some v \<Rightarrow> v)"

text \<open>
  \<^verbatim>\<open>s.strip()\<close> removes leading and trailing whitespace.  These are the ASCII characters
  for which \<^verbatim>\<open>str.isspace\<close> holds: TAB, LF, VT, FF, CR, FS, GS, RS, US and the space.
\<close>

definition is_space :: "char \<Rightarrow> bool" where
  "is_space c \<longleftrightarrow> c \<in> set [CHR 0x09, CHR 0x0A, CHR 0x0B, CHR 0x0C, CHR 0x0D,
                              CHR 0x1C, CHR 0x1D, CHR 0x1E, CHR 0x1F, CHR 0x20]"

definition strip :: "string \<Rightarrow> string" where
  "strip s = rev (dropWhile is_space (rev (dropWhile is_space s)))"

text \<open>
  \<^verbatim>\<open>xs[:n]\<close>: a non-negative bound keeps the first \<open>n\<close> elements, a negative one drops
  the last \<open>-n\<close>.
\<close>

definition py_slice_to :: "int \<Rightarrow> 'a list \<Rightarrow> 'a list" where
  "py_slice_to n xs = (if 0 \<le> n then take (nat n) xs else take (nat (int (length xs) + n)) xs)"

section \<open>The description builder\<close>

text \<open>
  The dictionary literal \<^verbatim>\<open>phase_desc\<close> of \<^verbatim>\<open>create_compound_description\<close>.  Its keys are
  integers; a lookup with \<^verbatim>\<open>True\<close> finds the entry of \<^verbatim>\<open>1\<close> (equal and of equal hash),
  a lookup with a string or \<^verbatim>\<open>None\<close> finds none.
\<close>

definition phase_desc :: "(int \<times> string) list" where
  "phase_desc =
     [(0, ''not tested in clinical trials''),
      (1, ''in Phase I clinical trials''),
      (2, ''in Phase II clinical trials''),
      (3, ''in Phase III clinical trials''),
      (4, ''approved for clinical use'')]"

fun py_int_key :: "pyval \<Rightarrow> int option" where
  "py_int_key (PyInt n) = Some n"
| "py_int_key (PyBool b) = Some (if b then 1 else 0)"
| "py_int_key PyNone = None"
| "py_int_key (PyStr s) = None"

definition phase_desc_get :: "pyval \<Rightarrow> string \<Rightarrow> string" where
  "phase_desc_get v dflt =
     (case py_int_key v of
        None \<Rightarrow> dflt
      | Some n \<Rightarrow> (case map_of phase_desc n of None \<Rightarrow> dflt | Some s \<Rightarrow> s))"

text \<open>
  \<^verbatim>\<open>create_compound_description(compound)\<close>.  The subscript
  \<^verbatim>\<open>compound['molecule_chembl_id']\<close> raises \<^verbatim>\<open>KeyError\<close> on a record without that key;
  \<^verbatim>\<open>compound['pref_name']\<close> and \<^verbatim>\<open>compound['max_phase']\<close> are read only after
  \<^verbatim>\<open>compound.get\<close> has returned a truthy value, so the key is there.
\<close>

definition create_compound_description :: "pydict \<Rightarrow> py_error + string" where
  "create_compound_description compound =
     (let d1 = ''This is a '' @ py_str (dict_get compound ''molecule_type'' (PyStr ''compound''))
                 @ '' '';
          d2 = (if py_truthy (dict_get compound ''pref_name'' PyNone)
                then d1 @ ''named '' @ py_str (dict_get compound ''pref_name'' PyNone) @ '' ''
                else d1)
      in case compound ''molecule_chembl_id'' of
           None \<Rightarrow> Inl (KeyError ''molecule_chembl_id'')
         | Some cid \<Rightarrow>
             (let d3 = d2 @ ''with ChEMBL ID '' @ py_str cid @ ''. '';
                  d4 = (if py_truthy (dict_get compound ''max_phase'' PyNone)
                        then d3 @ phase_desc_get (dict_get compound ''max_phase'' PyNone) ''''
                        else d3)
              in Inr (strip d4)))"

section \<open>The importer\<close>

text \<open>
  Logging: \<^verbatim>\<open>logger.info\<close> and \<^verbatim>\<open>logger.error\<close> append a record to the log, which is
  part of the state and survives an exception.
\<close>

datatype level = INFO | ERROR

record 's importer_state =
  store :: 's
  log_records :: "(level \<times> string) list"

definition log_msg :: "level \<Rightarrow> string \<Rightarrow> 's importer_state \<Rightarrow> 's importer_state" where
  "log_msg lvl msg st = st\<lparr>log_records := log_records st @ [(lvl, msg)]\<rparr>"

text \<open>
  The collaborators of \<^verbatim>\<open>ChEMBLWeaviateImporter\<close>, whose code is not part of the
  repository, are parameters; \<open>'s\<close> is the state of the vector store.
  \<^item> \<open>collections_get\<close>: \<^verbatim>\<open>self.client.collections.get("ChEMBLCompound")\<close>;
  \<^item> \<open>collections_create\<close>: \<^verbatim>\<open>self.client.collections.create(class_obj)\<close>;
  \<^item> \<open>molecule_filter\<close>: \<^verbatim>\<open>molecule.filter(max_phase__gte=0).order_by('-max_phase')\<close>;
  \<^item> \<open>model_encode\<close>: \<^verbatim>\<open>self.model.encode(description)\<close>;
  \<^item> \<open>generate_uuid5\<close>: \<^verbatim>\<open>weaviate.util.generate_uuid5\<close>, a function of its argument;
  \<^item> \<open>batch_add_object\<close>: \<^verbatim>\<open>batch.add_object(properties, vector, uuid)\<close>;
  \<^item> \<open>batch_size\<close>: \<^verbatim>\<open>self.batch_size\<close>.
  Each call either returns or raises.
\<close>

record 's importer =
  collections_get :: "'s \<Rightarrow> py_error + unit"
  collections_create :: "'s \<Rightarrow> py_error + 's"
  molecule_filter :: "py_error + pydict list"
  model_encode :: "string \<Rightarrow> py_error + real list"
  generate_uuid5 :: "pyval \<Rightarrow> string"
  batch_add_object :: "'s \<Rightarrow> pydict \<Rightarrow> real list \<Rightarrow> string \<Rightarrow> py_error + 's"
  batch_size :: int

text \<open>\<^verbatim>\<open>create_schema\<close>: the creation is logged, a failure is logged and raised again.\<close>

definition create_schema ::
  "'s importer \<Rightarrow> 's importer_state \<Rightarrow> (py_error + unit) \<times> 's importer_state" where
  "create_schema self st =
     (case collections_create self (store st) of
        Inr s' \<Rightarrow> (Inr (), log_msg INFO ''Schema created successfully'' (st\<lparr>store := s'\<rparr>))
      | Inl e \<Rightarrow> (Inl e, log_msg ERROR (''Error creating schema: '' @ exc_str e) st))"

text \<open>\<^verbatim>\<open>fetch_chembl_data(limit)\<close>: the slice \<^verbatim>\<open>[:limit]\<close> of the ordered molecules.\<close>

definition fetch_chembl_data ::
  "'s importer \<Rightarrow> int \<Rightarrow> 's importer_state \<Rightarrow> (py_error + pydict list) \<times> 's importer_state" where
  "fetch_chembl_data self limit st =
     (case molecule_filter self of
        Inr ms \<Rightarrow>
          (let compounds = py_slice_to limit ms
           in (Inr compounds,
               log_msg INFO (''Fetched '' @ str_of_nat (length compounds)
                               @ '' compounds from ChEMBL'') st))
      | Inl e \<Rightarrow> (Inl e, log_msg ERROR (''Error fetching ChEMBL data: '' @ exc_str e) st))"

text \<open>The dictionary \<^verbatim>\<open>data_object\<close> that \<^verbatim>\<open>process_batch\<close> builds for one record.\<close>

definition data_object :: "pydict \<Rightarrow> pyval \<Rightarrow> string \<Rightarrow> pydict" where
  "data_object compound cid description =
     [''molecule_chembl_id'' \<mapsto> cid,
      ''pref_name'' \<mapsto> dict_get compound ''pref_name'' (PyStr []),
      ''molecule_type'' \<mapsto> dict_get compound ''molecule_type'' (PyStr []),
      ''max_phase'' \<mapsto> dict_get compound ''max_phase'' (PyInt 0),
      ''therapeutic_flag'' \<mapsto> dict_get compound ''therapeutic_flag'' (PyBool False),
      ''structure_type'' \<mapsto> dict_get compound ''structure_type'' (PyStr []),
      ''description'' \<mapsto> PyStr description]"

text \<open>
  \<^verbatim>\<open>process_batch(compounds, collection)\<close>.  Only \<^verbatim>\<open>batch.add_object\<close> stands inside the
  \<^verbatim>\<open>try\<close>: its exception is logged and the loop goes on.  An exception of
  \<^verbatim>\<open>create_compound_description\<close> or of \<^verbatim>\<open>self.model.encode\<close> leaves the function, with
  the state as the records before have left it.  Entering and leaving the context
  \<^verbatim>\<open>collection.batch.dynamic()\<close> does not change the state: each \<^verbatim>\<open>add_object\<close> takes
  effect when it is called.
\<close>

fun process_batch ::
  "'s importer \<Rightarrow> pydict list \<Rightarrow> 's importer_state \<Rightarrow> (py_error + unit) \<times> 's importer_state" where
  "process_batch self [] st = (Inr (), st)"
| "process_batch self (compound # rest) st =
     (case create_compound_description compound of
        Inl e \<Rightarrow> (Inl e, st)
      | Inr description \<Rightarrow>
          (case model_encode self description of
             Inl e \<Rightarrow> (Inl e, st)
           | Inr embedding \<Rightarrow>
               (case compound ''molecule_chembl_id'' of
                  None \<Rightarrow> (Inl (KeyError ''molecule_chembl_id''), st)
                | Some cid \<Rightarrow>
                    (case batch_add_object self (store st)
                            (data_object compound cid description) embedding
                            (generate_uuid5 self cid) of
                       Inr s' \<Rightarrow> process_batch self rest (st\<lparr>store := s'\<rparr>)
                     | Inl e \<Rightarrow>
                         process_batch self rest
                           (log_msg ERROR (''Error adding compound '' @ py_str cid @ '': ''
                                             @ exc_str e) st)))))"

text \<open>
  The loop \<^verbatim>\<open>for i in range(0, len(compounds), self.batch_size)\<close> of \<^verbatim>\<open>import_data\<close>, for
  a positive step \<open>bs\<close>; the slice \<^verbatim>\<open>compounds[i:i + bs]\<close> is \<open>take bs (drop i compounds)\<close>.
  The pause \<^verbatim>\<open>time.sleep(0.1)\<close> has no effect on the state.
\<close>

function import_loop ::
  "'s importer \<Rightarrow> pydict list \<Rightarrow> nat \<Rightarrow> nat \<Rightarrow> 's importer_state
     \<Rightarrow> (py_error + unit) \<times> 's importer_state" where
  "import_loop self compounds bs i st =
     (if 0 < bs \<and> i < length compounds
      then (case process_batch self (take bs (drop i compounds)) st of
              (Inl e, st') \<Rightarrow> (Inl e, st')
            | (Inr u, st') \<Rightarrow> import_loop self compounds bs (i + bs) st')
      else (Inr (), st))"
  by pat_completeness auto
termination
  by (relation "measure (\<lambda>(self, compounds, bs, i, st). length compounds - i)") auto

declare import_loop.simps [simp del]

text \<open>
  The inner \<^verbatim>\<open>try\<close> of \<^verbatim>\<open>import_data\<close>: the collection is fetched; on any exception the
  schema is created and the collection fetched again.
\<close>

definition get_collection ::
  "'s importer \<Rightarrow> 's importer_state \<Rightarrow> (py_error + unit) \<times> 's importer_state" where
  "get_collection self st =
     (case collections_get self (store st) of
        Inr u \<Rightarrow> (Inr (), st)
      | Inl e0 \<Rightarrow>
          (case create_schema self st of
             (Inl e, st') \<Rightarrow> (Inl e, st')
           | (Inr u, st') \<Rightarrow>
               (case collections_get self (store st') of
                  Inl e \<Rightarrow> (Inl e, st')
                | Inr u' \<Rightarrow> (Inr (), st'))))"

text \<open>
  The body of the outer \<^verbatim>\<open>try\<close> of \<^verbatim>\<open>import_data\<close>.  \<^verbatim>\<open>range\<close> raises \<^verbatim>\<open>ValueError\<close> on
  a step of zero and is empty for a negative step.
\<close>

definition import_body ::
  "'s importer \<Rightarrow> int \<Rightarrow> 's importer_state \<Rightarrow> (py_error + unit) \<times> 's importer_state" where
  "import_body self limit st =
     (case get_collection self st of
        (Inl e, st1) \<Rightarrow> (Inl e, st1)
      | (Inr u, st1) \<Rightarrow>
          (case fetch_chembl_data self limit st1 of
             (Inl e, st2) \<Rightarrow> (Inl e, st2)
           | (Inr compounds, st2) \<Rightarrow>
               (if batch_size self = 0
                then (Inl (ValueError ''range() arg 3 must not be zero''), st2)
                else (case import_loop self compounds (nat (batch_size self)) 0 st2 of
                        (Inl e, st3) \<Rightarrow> (Inl e, st3)
                      | (Inr u', st3) \<Rightarrow>
                          (Inr (),
                           log_msg INFO (''Successfully imported ''
                                           @ str_of_nat (length compounds)
                                           @ '' compounds into Weaviate'') st3)))))"

text \<open>
  \<^verbatim>\<open>import_data(limit)\<close>: an exception of the body is logged and raised again.  The
  function has no \<^verbatim>\<open>return\<close> statement, so a run that completes returns \<^verbatim>\<open>None\<close>.
\<close>

definition import_data ::
  "'s importer \<Rightarrow> int \<Rightarrow> 's importer_state \<Rightarrow> (py_error + pyval) \<times> 's importer_state" where
  "import_data self limit st =
     (case import_body self limit st of
        (Inl e, st') \<Rightarrow> (Inl e, log_msg ERROR (''Error during import: '' @ exc_str e) st')
      | (Inr u, st') \<Rightarrow> (Inr PyNone, st'))"

section \<open>The query utility\<close>

text \<open>
  An object of a query result: \<^verbatim>\<open>obj.properties\<close>, \<^verbatim>\<open>obj.metadata.distance\<close> and
  \<^verbatim>\<open>obj.metadata.vector\<close>; the two metadata are \<^verbatim>\<open>None\<close> unless the store reports them.
  Distances and scores are Python floats; the model takes them as real numbers, so the
  subtraction \<^verbatim>\<open>1 - distance\<close> is exact.
\<close>

record result_object =
  properties :: pydict
  distance :: "real option"
  vector :: "real list option"

text \<open>The filter dictionaries, with the keys \<^verbatim>\<open>path\<close>, \<^verbatim>\<open>operator\<close> and the value.\<close>

datatype where_value = ValueNumber int | ValueString string

datatype where_filter =
  Where (where_path: "string list") (where_operator: string) (where_value: where_value)

text \<open>
  The query calls follow the builder pattern: \<^verbatim>\<open>collection.query.get()\<close> and
  \<^verbatim>\<open>collection.query.near_vector(...)\<close> start a query, \<^verbatim>\<open>with_where\<close>, \<^verbatim>\<open>with_limit\<close> and
  \<^verbatim>\<open>with_additional\<close> add a clause, and \<^verbatim>\<open>.objects\<close> runs the query on the store.
\<close>

record query =
  q_near_vector :: "real list option option"
  q_limit :: "int option"
  q_where :: "where_filter option"
  q_return_distance :: bool
  q_additional_vector :: bool

definition query_get :: query where
  "query_get = \<lparr>q_near_vector = None, q_limit = None, q_where = None,
                 q_return_distance = False, q_additional_vector = False\<rparr>"

definition query_near_vector :: "real list option \<Rightarrow> int \<Rightarrow> query" where
  "query_near_vector v n = \<lparr>q_near_vector = Some v, q_limit = Some n, q_where = None,
                             q_return_distance = True, q_additional_vector = False\<rparr>"

definition with_where :: "where_filter \<Rightarrow> query \<Rightarrow> query" where
  "with_where w q = q\<lparr>q_where := Some w\<rparr>"

definition with_limit :: "int \<Rightarrow> query \<Rightarrow> query" where
  "with_limit n q = q\<lparr>q_limit := Some n\<rparr>"

definition with_additional_vector :: "query \<Rightarrow> query" where
  "with_additional_vector q = q\<lparr>q_additional_vector := True\<rparr>"

text \<open>
  \<^verbatim>\<open>ChEMBLQueryUtil\<close>: \<open>collection_objects\<close> runs a query on \<^verbatim>\<open>self.collection\<close> and
  \<open>query_encode\<close> is \<^verbatim>\<open>self.model.encode\<close>.  Both are collaborators and may raise.
\<close>

record query_util =
  collection_objects :: "query \<Rightarrow> py_error + result_object list"
  query_encode :: "string \<Rightarrow> py_error + real list"

text \<open>
  A value of a returned dictionary: a stored property, or the float under \<^verbatim>\<open>certainty\<close>.
  \<^verbatim>\<open>{**obj.properties, "certainty": c}\<close> has the properties of the object, and \<open>c\<close> under
  the key \<^verbatim>\<open>certainty\<close> whether or not the properties have that key.
\<close>

datatype result_value = Prop pyval | PyFloat real

type_synonym result_entry = "string \<rightharpoonup> result_value"

definition with_certainty :: "pydict \<Rightarrow> real \<Rightarrow> result_entry" where
  "with_certainty props c = (map_option Prop \<circ> props)(''certainty'' \<mapsto> PyFloat c)"

text \<open>\<^verbatim>\<open>1 - obj.metadata.distance\<close> raises \<^verbatim>\<open>TypeError\<close> when the distance is \<^verbatim>\<open>None\<close>.\<close>

definition none_operand :: py_error where
  "none_operand = TypeError (''unsupported operand type(s) for -: '' @ [CHR 0x27] @ ''int''
                              @ [CHR 0x27] @ '' and '' @ [CHR 0x27] @ ''NoneType'' @ [CHR 0x27])"

text \<open>The list comprehension of \<^verbatim>\<open>semantic_search\<close>.\<close>

fun friendly_format :: "result_object list \<Rightarrow> py_error + result_entry list" where
  "friendly_format [] = Inr []"
| "friendly_format (obj # objs) =
     (case distance obj of
        None \<Rightarrow> Inl none_operand
      | Some d \<Rightarrow>
          (case friendly_format objs of
             Inl e \<Rightarrow> Inl e
           | Inr rs \<Rightarrow> Inr (with_certainty (properties obj) (1 - d) # rs)))"

text \<open>
  The list comprehension of \<^verbatim>\<open>get_similar_compounds\<close>: the condition
  \<^verbatim>\<open>obj.properties["molecule_chembl_id"] != chembl_id\<close> is evaluated first and raises
  \<^verbatim>\<open>KeyError\<close> on an object without that property.
\<close>

fun friendly_format_excluding ::
  "string \<Rightarrow> result_object list \<Rightarrow> py_error + result_entry list" where
  "friendly_format_excluding chembl_id [] = Inr []"
| "friendly_format_excluding chembl_id (obj # objs) =
     (case properties obj ''molecule_chembl_id'' of
        None \<Rightarrow> Inl (KeyError ''molecule_chembl_id'')
      | Some v \<Rightarrow>
          (if v \<noteq> PyStr chembl_id
           then (case distance obj of
                   None \<Rightarrow> Inl none_operand
                 | Some d \<Rightarrow>
                     (case friendly_format_excluding chembl_id objs of
                        Inl e \<Rightarrow> Inl e
                      | Inr rs \<Rightarrow> Inr (with_certainty (properties obj) (1 - d) # rs)))
           else friendly_format_excluding chembl_id objs))"

text \<open>
  Each query method wraps its body in \<^verbatim>\<open>try\<close>; the handler logs the exception and raises
  it again.  The methods do not change the store, so the state is the log alone.
\<close>

definition log_and_raise ::
  "string \<Rightarrow> (level \<times> string) list \<Rightarrow> py_error + 'a \<Rightarrow> (py_error + 'a) \<times> (level \<times> string) list"
  where
  "log_and_raise prefix lg r =
     (case r of
        Inl e \<Rightarrow> (Inl e, lg @ [(ERROR, prefix @ exc_str e)])
      | Inr x \<Rightarrow> (Inr x, lg))"

text \<open>
  \<^verbatim>\<open>semantic_search(query, limit, additional_filters)\<close>; \<^verbatim>\<open>if additional_filters:\<close> holds
  for a filter dictionary and fails for \<^verbatim>\<open>None\<close>.
\<close>

definition semantic_search_body ::
  "query_util \<Rightarrow> string \<Rightarrow> int \<Rightarrow> where_filter option \<Rightarrow> py_error + result_entry list" where
  "semantic_search_body self query limit additional_filters =
     (case query_encode self query of
        Inl e \<Rightarrow> Inl e
      | Inr query_embedding \<Rightarrow>
          (let query_obj = query_near_vector (Some query_embedding) limit;
               query_obj' = (case additional_filters of
                               None \<Rightarrow> query_obj
                             | Some w \<Rightarrow> with_where w query_obj)
           in case collection_objects self query_obj' of
                Inl e \<Rightarrow> Inl e
              | Inr results \<Rightarrow> friendly_format results))"

definition semantic_search ::
  "query_util \<Rightarrow> string \<Rightarrow> int \<Rightarrow> where_filter option \<Rightarrow> (level \<times> string) list
     \<Rightarrow> (py_error + result_entry list) \<times> (level \<times> string) list" where
  "semantic_search self query limit additional_filters lg =
     log_and_raise ''Error in semantic search: '' lg
       (semantic_search_body self query limit additional_filters)"



text \<open>
  \<^verbatim>\<open>get_similar_compounds(chembl_id, limit)\<close>.  \<^verbatim>\<open>if not reference:\<close> holds for the empty
  list; otherwise \<^verbatim>\<open>reference[0]\<close> is the head.
\<close>

definition get_similar_compounds_body ::
  "query_util \<Rightarrow> string \<Rightarrow> int \<Rightarrow> py_error + result_entry list" where
  "get_similar_compounds_body self chembl_id limit =
     (let where_filter = Where [''molecule_chembl_id''] ''Equal'' (ValueString chembl_id)
      in case collection_objects self
                (with_additional_vector (with_where where_filter query_get)) of
           Inl e \<Rightarrow> Inl e
         | Inr [] \<Rightarrow> Inl (ValueError (''No compound found with ChEMBL ID: '' @ chembl_id))
         | Inr (ref # others) \<Rightarrow>
             (let ref_vector = vector ref
              in case collection_objects self (query_near_vector ref_vector (limit + 1)) of
                   Inl e \<Rightarrow> Inl e
                 | Inr similar \<Rightarrow>
                     (case friendly_format_excluding chembl_id similar of
                        Inl e \<Rightarrow> Inl e
                      | Inr rs \<Rightarrow> Inr (py_slice_to limit rs))))"

definition get_similar_compounds ::
  "query_util \<Rightarrow> string \<Rightarrow> int \<Rightarrow> (level \<times> string) list
     \<Rightarrow> (py_error + result_entry list) \<times> (level \<times> string) list" where
  "get_similar_compounds self chembl_id limit lg =
     log_and_raise ''Error finding similar compounds: '' lg
       (get_similar_compounds_body self chembl_id limit)"

section \<open>The vector store\<close>

text \<open>
  Modelled from the spec: the Vector Store, an external service whose code is not in the
  repository.  The spec describes it as a collection of objects addressable by a stable
  identifier, each holding a property bag and a vector, with upsert by identifier,
  nearest-neighbour query and attribute-filtered query, each limited to a number of results.
\<close>

record indexed_object =
  obj_id :: string
  obj_properties :: pydict
  obj_vector :: "real list"

text \<open>
  Modelled from the spec: \<^verbatim>\<open>upsert(collection, id, properties, vector)\<close> inserts the object
  or overwrites the object of the same identifier.
\<close>

fun upsert :: "indexed_object \<Rightarrow> indexed_object list \<Rightarrow> indexed_object list" where
  "upsert x [] = [x]"
| "upsert x (y # ys) = (if obj_id y = obj_id x then x # ys else y # upsert x ys)"

text \<open>
  Modelled from the spec: a write to the store is that upsert, under the identifier the
  importer passes as \<^verbatim>\<open>uuid\<close>; it does not fail.
\<close>

definition store_add_object ::
  "indexed_object list \<Rightarrow> pydict \<Rightarrow> real list \<Rightarrow> string \<Rightarrow> py_error + indexed_object list" where
  "store_add_object s props vec uuid =
     Inr (upsert \<lparr>obj_id = uuid, obj_properties = props, obj_vector = vec\<rparr> s)"

text \<open>
  Modelled from the spec: the predicate of an attribute filter.  \<^verbatim>\<open>Equal\<close> holds when the
  property is the given string, \<^verbatim>\<open>GreaterThanEqual\<close> when the property is a number not
  below the given one.
\<close>

fun matches :: "where_filter \<Rightarrow> indexed_object \<Rightarrow> bool" where
  "matches (Where [k] oper (ValueString s)) ob =
     (oper = ''Equal'' \<and> obj_properties ob k = Some (PyStr s))"
| "matches (Where [k] oper (ValueNumber n)) ob =
     (oper = ''GreaterThanEqual'' \<and>
      (case obj_properties ob k of Some (PyInt m) \<Rightarrow> n \<le> m | _ \<Rightarrow> False))"
| "matches (Where ks oper v) ob = False"

text \<open>
  Modelled from the spec: a query limited to \<open>n\<close> results returns at most the first
  \<open>n\<close> of them (none for a negative \<open>n\<close>).
\<close>

definition limited :: "int option \<Rightarrow> 'a list \<Rightarrow> 'a list" where
  "limited l xs = (case l of None \<Rightarrow> xs | Some n \<Rightarrow> take (nat n) xs)"

text \<open>
  Modelled from the spec: running a query on the objects of the store.  The attribute
  filter selects the objects; a near-vector clause ranks them by their distance to the
  query vector under the metric of the store; the limit truncates.  A query without a
  near-vector clause returns the objects in the order of the store.
\<close>

definition store_objects ::
  "(real list \<Rightarrow> real list \<Rightarrow> real) \<Rightarrow> indexed_object list \<Rightarrow> query
     \<Rightarrow> py_error + result_object list" where
  "store_objects metric objs q =
     (let matching = (case q_where q of None \<Rightarrow> objs | Some w \<Rightarrow> filter (matches w) objs);
          vec = (\<lambda>ob. if q_additional_vector q then Some (obj_vector ob) else None)
      in case q_near_vector q of
           None \<Rightarrow>
             Inr (map (\<lambda>ob. \<lparr>properties = obj_properties ob, distance = None, vector = vec ob\<rparr>)
                    (limited (q_limit q) matching))
         | Some None \<Rightarrow> Inl (ExternalError ''near_vector: no vector given'')
         | Some (Some v) \<Rightarrow>
             Inr (map (\<lambda>ob. \<lparr>properties = obj_properties ob,
                             distance = (if q_return_distance q
                                         then Some (metric v (obj_vector ob)) else None),
                             vector = vec ob\<rparr>)
                    (limited (q_limit q)
                       (sort_key (\<lambda>ob. metric v (obj_vector ob)) matching))))"

section \<open>Records with a description and an embedding\<close>

text \<open>
  A record is embeddable when \<^verbatim>\<open>create_compound_description\<close> returns for it and
  \<^verbatim>\<open>self.model.encode\<close> returns for its description.
\<close>

definition embeddable :: "'s importer \<Rightarrow> pydict \<Rightarrow> bool" where
  "embeddable self c =
     (case create_compound_description c of
        Inl e \<Rightarrow> False
      | Inr d \<Rightarrow> (case model_encode self d of Inl e \<Rightarrow> False | Inr v \<Rightarrow> True))"

section \<open>Example records and collaborators\<close>

definition aspirin :: pydict where
  "aspirin = [''molecule_type'' \<mapsto> PyStr ''Small molecule'', ''pref_name'' \<mapsto> PyStr ''Aspirin'',
              ''molecule_chembl_id'' \<mapsto> PyStr ''CHEMBL25'', ''max_phase'' \<mapsto> PyInt 4]"

definition bare_compound :: pydict where
  "bare_compound = [''molecule_chembl_id'' \<mapsto> PyStr ''CHEMBL99'']"

definition unnamed_compound :: pydict where
  "unnamed_compound = [''molecule_chembl_id'' \<mapsto> PyStr ''CHEMBL192'', ''pref_name'' \<mapsto> PyNone,
                       ''max_phase'' \<mapsto> PyInt 2]"

text \<open>A stand-in for \<^verbatim>\<open>generate_uuid5\<close> in the examples.\<close>

definition example_uuid5 :: "pyval \<Rightarrow> string" where
  "example_uuid5 v = ''uuid5-'' @ py_str v"

text \<open>
  An importer on the store of section ``The vector store'': the collection exists, three
  records are fetched, every description has an embedding and every write succeeds.
\<close>

definition example_importer :: "indexed_object list importer" where
  "example_importer =
     \<lparr>collections_get = (\<lambda>s. Inr ()),
      collections_create = (\<lambda>s. Inr s),
      molecule_filter = Inr [aspirin, bare_compound, unnamed_compound],
      model_encode = (\<lambda>d. Inr [real (length d)]),
      generate_uuid5 = example_uuid5,
      batch_add_object = store_add_object,
      batch_size = 2\<rparr>"

text \<open>An embedding provider that fails on the description of \<open>bare_compound\<close>.\<close>

definition failing_encode :: "string \<Rightarrow> py_error + real list" where
  "failing_encode d =
     (if d = ''This is a compound with ChEMBL ID CHEMBL99.''
      then Inl (ExternalError ''encode failed'') else Inr [real (length d)])"

text \<open>A store whose write fails for the identifier of \<open>bare_compound\<close>.\<close>

definition failing_add_object ::
  "indexed_object list \<Rightarrow> pydict \<Rightarrow> real list \<Rightarrow> string \<Rightarrow> py_error + indexed_object list" where
  "failing_add_object s props vec uuid =
     (if uuid = ''uuid5-CHEMBL99'' then Inl (ExternalError ''write failed'')
      else store_add_object s props vec uuid)"

definition empty_state :: "indexed_object list importer_state" where
  "empty_state = \<lparr>store = [], log_records = []\<rparr>"

definition failing_importer :: "indexed_object list importer" where
  "failing_importer = example_importer\<lparr>batch_add_object := failing_add_object\<rparr>"

text \<open>The score that a returned dictionary carries under \<^verbatim>\<open>certainty\<close>.\<close>

definition score :: "result_entry \<Rightarrow> real option" where
  "score e = (case e ''certainty'' of Some (PyFloat c) \<Rightarrow> Some c | _ \<Rightarrow> None)"

text \<open>
  A store of five objects with the phases 0, 2, 3, 4, 4 and one-dimensional vectors, a
  metric with values in \<open>[0, 1]\<close>, and a query utility on them.
\<close>

definition example_object :: "string \<Rightarrow> int \<Rightarrow> real \<Rightarrow> indexed_object" where
  "example_object cid phase x =
     \<lparr>obj_id = example_uuid5 (PyStr cid),
      obj_properties = [''molecule_chembl_id'' \<mapsto> PyStr cid, ''max_phase'' \<mapsto> PyInt phase],
      obj_vector = [x]\<rparr>"

definition example_store :: "indexed_object list" where
  "example_store =
     [example_object ''CHEMBL10'' 0 0, example_object ''CHEMBL20'' 2 (1/2),
      example_object ''CHEMBL30'' 3 (1/4), example_object ''CHEMBL25'' 4 (3/4),
      example_object ''CHEMBL40'' 4 1]"

definition example_metric :: "real list \<Rightarrow> real list \<Rightarrow> real" where
  "example_metric v w = (case (v, w) of ([a], [b]) \<Rightarrow> min 1 \<bar>a - b\<bar> | _ \<Rightarrow> 1)"

definition example_query_util :: query_util where
  "example_query_util =
     \<lparr>collection_objects = store_objects example_metric example_store,
      query_encode = (\<lambda>q. Inr [real (length q) / 10])\<rparr>"

section \<open>Predicates on stored objects\<close>

text \<open>The seven keys of \<^verbatim>\<open>data_object\<close>, and the defaults of the five optional fields.\<close>

definition property_keys :: "string set" where
  "property_keys = {''molecule_chembl_id'', ''pref_name'', ''molecule_type'', ''max_phase'',
                    ''therapeutic_flag'', ''structure_type'', ''description''}"

definition optional_defaults :: "(string \<times> pyval) list" where
  "optional_defaults =
     [(''pref_name'', PyStr []), (''molecule_type'', PyStr []), (''max_phase'', PyInt 0),
      (''therapeutic_flag'', PyBool False), (''structure_type'', PyStr [])]"

text \<open>
  \<open>stored_from compound props\<close>: the properties \<open>props\<close> have exactly the seven keys, the
  identifier of the record, and under each optional key the value of the record, or the
  default when the record has no such key.
\<close>

definition stored_from :: "pydict \<Rightarrow> pydict \<Rightarrow> bool" where
  "stored_from compound props \<longleftrightarrow>
     dom props = property_keys \<and>
     props ''molecule_chembl_id'' = compound ''molecule_chembl_id'' \<and>
     (\<forall>(k, dflt) \<in> set optional_defaults.
        props k = Some (case compound k of None \<Rightarrow> dflt | Some v \<Rightarrow> v))"


section \<open>Evaluation of the examples\<close>

lemmas example_defs = aspirin_def bare_compound_def unnamed_compound_def example_uuid5_def
  example_importer_def failing_encode_def failing_add_object_def empty_state_def
  create_compound_description_def dict_get_def strip_def is_space_def phase_desc_get_def
  phase_desc_def store_add_object_def data_object_def log_msg_def

section \<open>Properties of the description builder\<close>

text \<open>
  Claim C3.  For a record whose \<^verbatim>\<open>max_phase\<close> is present, the builder is to append the
  phrase of that phase, and for phase 0 the phrase "not tested in clinical trials".  The
  guard \<^verbatim>\<open>if compound.get('max_phase'):\<close> tests the truth value, and \<^verbatim>\<open>0\<close> is false: on
  the record with \<^verbatim>\<open>molecule_chembl_id = "CHEMBL1"\<close> and \<^verbatim>\<open>max_phase = 0\<close> the builder
  returns the text without any phrase, although \<^verbatim>\<open>phase_desc\<close> has an entry for 0.
\<close>

theorem create_compound_description_phase_zero:
  "create_compound_description
     [''molecule_chembl_id'' \<mapsto> PyStr ''CHEMBL1'', ''max_phase'' \<mapsto> PyInt 0]
   = Inr ''This is a compound with ChEMBL ID CHEMBL1.''"
  by (simp add: create_compound_description_def dict_get_def strip_def is_space_def)

text \<open>
  The other entries of \<^verbatim>\<open>phase_desc\<close> are reached: the phases 1 to 4 select their
  phrase, and an integer outside 0 to 4 selects the empty default.
\<close>

lemma phase_desc_get_phases:
  "phase_desc_get (PyInt 1) [] = ''in Phase I clinical trials''"
  "phase_desc_get (PyInt 2) [] = ''in Phase II clinical trials''"
  "phase_desc_get (PyInt 3) [] = ''in Phase III clinical trials''"
  "phase_desc_get (PyInt 4) [] = ''approved for clinical use''"
  "n < 0 \<or> 4 < n \<Longrightarrow> phase_desc_get (PyInt n) [] = []"
  by (auto simp: phase_desc_get_def phase_desc_def)

text \<open>
  Claim C4.  The two worked examples of the description builder: the record of Aspirin
  with type, name, identifier and phase 4, and the record that has only the identifier
  \<^verbatim>\<open>CHEMBL99\<close>, whose trailing space is trimmed.
\<close>

theorem create_compound_description_examples:
  "create_compound_description
     [''molecule_type'' \<mapsto> PyStr ''Small molecule'', ''pref_name'' \<mapsto> PyStr ''Aspirin'',
      ''molecule_chembl_id'' \<mapsto> PyStr ''CHEMBL25'', ''max_phase'' \<mapsto> PyInt 4]
   = Inr ''This is a Small molecule named Aspirin with ChEMBL ID CHEMBL25. approved for clinical use''
   \<and> create_compound_description [''molecule_chembl_id'' \<mapsto> PyStr ''CHEMBL99'']
   = Inr ''This is a compound with ChEMBL ID CHEMBL99.''"
  by (simp add: create_compound_description_def dict_get_def strip_def is_space_def
      phase_desc_get_def phase_desc_def)

section \<open>Properties of \<^verbatim>\<open>process_batch\<close>\<close>

lemma create_compound_description_Inr:
  "create_compound_description c = Inr d \<Longrightarrow> \<exists>cid. c ''molecule_chembl_id'' = Some cid"
  by (auto simp: create_compound_description_def Let_def split: option.splits)

lemma process_batch_embeddable:
  "list_all (embeddable self) cs \<Longrightarrow> fst (process_batch self cs st) = Inr ()"
proof (induction cs arbitrary: st)
  case Nil
  then show ?case by simp
next
  case (Cons c cs)
  then show ?case
    by (auto simp: embeddable_def split: sum.splits option.splits
        dest: create_compound_description_Inr)
qed

lemma process_batch_append:
  "fst (process_batch self xs st) = Inr () \<Longrightarrow>
   process_batch self (xs @ zs) st = process_batch self zs (snd (process_batch self xs st))"
proof (induction xs arbitrary: st)
  case Nil
  then show ?case by simp
next
  case (Cons c cs)
  then show ?case
    by (auto split: sum.splits option.splits)
qed

text \<open>
  Claim C1, as the code has it.  Let the records before \<open>c\<close> in a batch have a
  description and an embedding, and let \<open>c\<close> have a description.  When the embedding of
  \<open>c\<close> fails, the exception is not caught: \<^verbatim>\<open>process_batch\<close> raises it, with the state as
  the records before \<open>c\<close> have left it, and the records after \<open>c\<close> are not processed.
  When the write of \<open>c\<close> to the store fails, the failure is logged and \<open>c\<close> is skipped:
  the batch continues with the records after \<open>c\<close>, from the state the records before it
  have left plus the log record, and \<^verbatim>\<open>process_batch\<close> does not raise when those records
  have a description and an embedding too.  Only the write stands inside the \<^verbatim>\<open>try\<close>.
\<close>

theorem process_batch_record_failure:
  assumes emb: "list_all (embeddable self) xs"
    and d: "create_compound_description c = Inr d"
  shows "(\<forall>e. model_encode self d = Inl e \<longrightarrow>
            process_batch self (xs @ c # ys) st = (Inl e, snd (process_batch self xs st)))
         \<and> (\<forall>v cid e.
               model_encode self d = Inr v \<and> c ''molecule_chembl_id'' = Some cid \<and>
               batch_add_object self (store (snd (process_batch self xs st)))
                 (data_object c cid d) v (generate_uuid5 self cid) = Inl e \<longrightarrow>
               process_batch self (xs @ c # ys) st =
                 process_batch self ys
                   (log_msg ERROR (''Error adding compound '' @ py_str cid @ '': '' @ exc_str e)
                      (snd (process_batch self xs st)))
               \<and> (list_all (embeddable self) ys \<longrightarrow>
                    fst (process_batch self (xs @ c # ys) st) = Inr ()))"
proof -
  from emb have xs: "fst (process_batch self xs st) = Inr ()"
    by (rule process_batch_embeddable)
  have split: "process_batch self (xs @ c # ys) st =
          process_batch self (c # ys) (snd (process_batch self xs st))"
    using xs by (rule process_batch_append)
  have encode: "process_batch self (xs @ c # ys) st = (Inl e, snd (process_batch self xs st))"
    if "model_encode self d = Inl e" for e
    using split d that by simp
  have "write": "process_batch self (xs @ c # ys) st =
                 process_batch self ys
                   (log_msg ERROR (''Error adding compound '' @ py_str cid @ '': '' @ exc_str e)
                      (snd (process_batch self xs st)))
               \<and> (list_all (embeddable self) ys \<longrightarrow>
                    fst (process_batch self (xs @ c # ys) st) = Inr ())"
    if v: "model_encode self d = Inr v" and cid: "c ''molecule_chembl_id'' = Some cid"
      and fail: "batch_add_object self (store (snd (process_batch self xs st)))
                 (data_object c cid d) v (generate_uuid5 self cid) = Inl e"
    for v cid e
  proof -
    have first: "process_batch self (xs @ c # ys) st =
                 process_batch self ys
                   (log_msg ERROR (''Error adding compound '' @ py_str cid @ '': '' @ exc_str e)
                      (snd (process_batch self xs st)))"
      using split d v cid fail by simp
    have "fst (process_batch self (xs @ c # ys) st) = Inr ()"
      if ys: "list_all (embeddable self) ys"
    proof -
      have "embeddable self c" using d v by (simp add: embeddable_def)
      with emb ys have "list_all (embeddable self) (xs @ c # ys)" by simp
      then show ?thesis by (rule process_batch_embeddable)
    qed
    with first show ?thesis by blast
  qed
  from encode "write" show ?thesis by blast
qed

text \<open>
  The theorem at a batch of three records, on a store whose write fails for the second,
  and with an embedding provider that fails for the second.
\<close>

theorem process_batch_record_failure_witness:
  "list_all (embeddable failing_importer) [aspirin]
   \<and> create_compound_description bare_compound
       = Inr ''This is a compound with ChEMBL ID CHEMBL99.''
   \<and> model_encode failing_importer ''This is a compound with ChEMBL ID CHEMBL99.'' = Inr [43]
   \<and> bare_compound ''molecule_chembl_id'' = Some (PyStr ''CHEMBL99'')
   \<and> batch_add_object failing_importer
         (store (snd (process_batch failing_importer [aspirin] empty_state)))
         (data_object bare_compound (PyStr ''CHEMBL99'')
            ''This is a compound with ChEMBL ID CHEMBL99.'')
         [43] (generate_uuid5 failing_importer (PyStr ''CHEMBL99''))
       = Inl (ExternalError ''write failed'')
   \<and> list_all (embeddable failing_importer) [unnamed_compound]
   \<and> process_batch failing_importer ([aspirin] @ bare_compound # [unnamed_compound]) empty_state
       = process_batch failing_importer [unnamed_compound]
           (log_msg ERROR (''Error adding compound '' @ py_str (PyStr ''CHEMBL99'') @ '': ''
                             @ exc_str (ExternalError ''write failed''))
              (snd (process_batch failing_importer [aspirin] empty_state)))
   \<and> fst (process_batch failing_importer ([aspirin] @ bare_compound # [unnamed_compound])
            empty_state) = Inr ()
   \<and> list_all (embeddable (example_importer\<lparr>model_encode := failing_encode\<rparr>)) [aspirin]
   \<and> model_encode (example_importer\<lparr>model_encode := failing_encode\<rparr>)
         ''This is a compound with ChEMBL ID CHEMBL99.'' = Inl (ExternalError ''encode failed'')
   \<and> process_batch (example_importer\<lparr>model_encode := failing_encode\<rparr>)
         ([aspirin] @ bare_compound # [unnamed_compound]) empty_state
       = (Inl (ExternalError ''encode failed''),
          snd (process_batch (example_importer\<lparr>model_encode := failing_encode\<rparr>) [aspirin]
                 empty_state))"
proof -
  have emb: "list_all (embeddable failing_importer) [aspirin]"
    by (simp add: embeddable_def failing_importer_def example_defs)
  have emb_ys: "list_all (embeddable failing_importer) [unnamed_compound]"
    by (simp add: embeddable_def failing_importer_def example_defs)
  have d: "create_compound_description bare_compound
             = Inr ''This is a compound with ChEMBL ID CHEMBL99.''"
    by (simp add: example_defs)
  have v: "model_encode failing_importer ''This is a compound with ChEMBL ID CHEMBL99.''
             = Inr [43]"
    by (simp add: failing_importer_def example_defs)
  have cid: "bare_compound ''molecule_chembl_id'' = Some (PyStr ''CHEMBL99'')"
    by (simp add: example_defs)
  have fail: "batch_add_object failing_importer
                (store (snd (process_batch failing_importer [aspirin] empty_state)))
                (data_object bare_compound (PyStr ''CHEMBL99'')
                   ''This is a compound with ChEMBL ID CHEMBL99.'')
                [43] (generate_uuid5 failing_importer (PyStr ''CHEMBL99''))
              = Inl (ExternalError ''write failed'')"
    by (simp add: failing_importer_def example_importer_def failing_add_object_def
        example_uuid5_def)
  have emb': "list_all (embeddable (example_importer\<lparr>model_encode := failing_encode\<rparr>))
                [aspirin]"
    by (simp add: embeddable_def example_defs)
  have v': "model_encode (example_importer\<lparr>model_encode := failing_encode\<rparr>)
         ''This is a compound with ChEMBL ID CHEMBL99.'' = Inl (ExternalError ''encode failed'')"
    by (simp add: example_defs)
  note w = process_batch_record_failure[OF emb d, of "[unnamed_compound]" empty_state]
  note a = process_batch_record_failure[OF emb' d, of "[unnamed_compound]" empty_state]
  from w v cid fail emb_ys have
    "process_batch failing_importer ([aspirin] @ bare_compound # [unnamed_compound]) empty_state
       = process_batch failing_importer [unnamed_compound]
           (log_msg ERROR (''Error adding compound '' @ py_str (PyStr ''CHEMBL99'') @ '': ''
                             @ exc_str (ExternalError ''write failed''))
              (snd (process_batch failing_importer [aspirin] empty_state)))
     \<and> fst (process_batch failing_importer ([aspirin] @ bare_compound # [unnamed_compound])
            empty_state) = Inr ()"
    by blast
  moreover from a v' have
    "process_batch (example_importer\<lparr>model_encode := failing_encode\<rparr>)
         ([aspirin] @ bare_compound # [unnamed_compound]) empty_state
       = (Inl (ExternalError ''encode failed''),
          snd (process_batch (example_importer\<lparr>model_encode := failing_encode\<rparr>) [aspirin]
                 empty_state))"
    by blast
  ultimately show ?thesis using emb emb_ys d v cid fail emb' v' by blast
qed

text \<open>
  Counterexample to C1 as stated: the embedding of the first record fails, and the batch is
  aborted with that exception; the second record is not written.
\<close>

theorem process_batch_encode_failure_aborts:
  "process_batch (example_importer\<lparr>model_encode := failing_encode\<rparr>)
     [bare_compound, aspirin] empty_state
   = (Inl (ExternalError ''encode failed''), empty_state)"
  by (simp add: example_defs)

section \<open>Properties of \<^verbatim>\<open>import_data\<close>\<close>

lemma import_loop_embeddable:
  "list_all (embeddable self) compounds \<Longrightarrow> fst (import_loop self compounds bs i st) = Inr ()"
proof (induction self compounds bs i st rule: import_loop.induct)
  case (1 self compounds bs i st)
  show ?case
  proof (cases "0 < bs \<and> i < length compounds")
    case True
    have "list_all (embeddable self) (take bs (drop i compounds))"
      using "1.prems" by (auto simp: list_all_iff dest: in_set_takeD in_set_dropD)
    then have "fst (process_batch self (take bs (drop i compounds)) st) = Inr ()"
      by (rule process_batch_embeddable)
    then obtain st' where st': "process_batch self (take bs (drop i compounds)) st = (Inr (), st')"
      by (cases "process_batch self (take bs (drop i compounds)) st") auto
    from "1.IH"[OF True st'[symmetric] refl "1.prems"] True st' show ?thesis
      by (subst import_loop.simps) simp
  next
    case False
    then show ?thesis by (subst import_loop.simps) (simp only: if_False fst_conv)
  qed
qed

text \<open>
  Claim C2, as the code has it.  \<^verbatim>\<open>import_data\<close> has no \<^verbatim>\<open>return\<close> statement: a run
  returns \<^verbatim>\<open>None\<close>, not a count.  It completes whenever the collection is obtained, the
  fetch succeeds, the batch size is not zero and every fetched record has a description and
  an embedding, whatever the writes to the store do.
\<close>

theorem import_data_returns_none:
  assumes coll: "fst (get_collection self st) = Inr ()"
    and fetch: "molecule_filter self = Inr ms"
    and bs: "batch_size self \<noteq> 0"
    and emb: "list_all (embeddable self) (py_slice_to limit ms)"
  shows "fst (import_data self limit st) = Inr PyNone"
proof -
  define st1 where "st1 = snd (get_collection self st)"
  define st2 where "st2 = snd (fetch_chembl_data self limit st1)"
  define st3 where
    "st3 = snd (import_loop self (py_slice_to limit ms) (nat (batch_size self)) 0 st2)"
  have c1: "get_collection self st = (Inr (), st1)"
    using coll unfolding st1_def by (metis prod.collapse)
  have c2: "fetch_chembl_data self limit st1 = (Inr (py_slice_to limit ms), st2)"
    unfolding st2_def by (simp add: fetch_chembl_data_def Let_def fetch)
  have "fst (import_loop self (py_slice_to limit ms) (nat (batch_size self)) 0 st2) = Inr ()"
    using emb by (rule import_loop_embeddable)
  then have c3:
    "import_loop self (py_slice_to limit ms) (nat (batch_size self)) 0 st2 = (Inr (), st3)"
    unfolding st3_def by (metis prod.collapse)
  have "fst (import_body self limit st) = Inr ()"
    unfolding import_body_def by (simp add: c1 c2 c3 bs)
  then show ?thesis
    unfolding import_data_def by (cases "import_body self limit st") auto
qed

text \<open>The theorem at a run of three fetched records in which one write fails.\<close>

theorem import_data_returns_none_witness:
  "fst (get_collection failing_importer empty_state) = Inr ()
   \<and> molecule_filter failing_importer = Inr [aspirin, bare_compound, unnamed_compound]
   \<and> batch_size failing_importer \<noteq> 0
   \<and> list_all (embeddable failing_importer)
         (py_slice_to 1000 [aspirin, bare_compound, unnamed_compound])
   \<and> fst (import_data failing_importer 1000 empty_state) = Inr PyNone"
proof -
  have coll: "fst (get_collection failing_importer empty_state) = Inr ()"
    by (simp add: get_collection_def failing_importer_def example_importer_def)
  have fetch: "molecule_filter failing_importer = Inr [aspirin, bare_compound, unnamed_compound]"
    by (simp add: failing_importer_def example_importer_def)
  have bs: "batch_size failing_importer \<noteq> 0"
    by (simp add: failing_importer_def example_importer_def)
  have emb: "list_all (embeddable failing_importer)
               (py_slice_to 1000 [aspirin, bare_compound, unnamed_compound])"
    by (simp add: py_slice_to_def embeddable_def failing_importer_def example_defs)
  from import_data_returns_none[OF coll fetch bs emb] coll fetch bs emb
  show ?thesis by blast
qed

text \<open>
  Counterexample to C2 as stated: in that run two objects are written and the value
  returned is \<^verbatim>\<open>None\<close>, not the count 2.
\<close>

theorem import_data_returns_no_count:
  "fst (import_data failing_importer 1000 empty_state) = Inr PyNone
   \<and> length (store (snd (import_data failing_importer 1000 empty_state))) = 2
   \<and> fst (import_data failing_importer 1000 empty_state)
       \<noteq> Inr (PyInt (int (length (store (snd (import_data failing_importer 1000
                                                  empty_state))))))"
  by (simp add: example_defs failing_importer_def import_data_def import_body_def
      get_collection_def fetch_chembl_data_def py_slice_to_def import_loop.simps)

section \<open>The properties of a stored object\<close>

lemma data_object_stored_from:
  "c ''molecule_chembl_id'' = Some cid \<Longrightarrow> stored_from c (data_object c cid d)"
  by (auto simp: stored_from_def data_object_def property_keys_def optional_defaults_def
      dict_get_def split: option.splits)

lemma set_upsert: "set (upsert x s) \<subseteq> insert x (set s)"
  by (induction s) auto





lemma process_batch_stored_from:
  assumes "batch_add_object self = store_add_object"
    and "set compounds \<subseteq> C"
    and "\<forall>ob \<in> set (store st). \<exists>c \<in> C. stored_from c (obj_properties ob)"
  shows "\<forall>ob \<in> set (store (snd (process_batch self compounds st))).
           \<exists>c \<in> C. stored_from c (obj_properties ob)"
  using assms
proof (induction compounds arbitrary: st)
  case Nil
  then show ?case by simp
next
  case (Cons c cs)
  show ?case
  proof (cases "create_compound_description c")
    case (Inl e)
    then show ?thesis using Cons.prems by simp
  next
    case (Inr d)
    note d = this
    show ?thesis
    proof (cases "model_encode self d")
      case (Inl e)
      then show ?thesis using Cons.prems d by simp
    next
      case (Inr v)
      from d obtain cid where cid: "c ''molecule_chembl_id'' = Some cid"
        by (auto dest: create_compound_description_Inr)
      let ?x = "\<lparr>obj_id = generate_uuid5 self cid, obj_properties = data_object c cid d,
                 obj_vector = v\<rparr>"
      let ?st = "st\<lparr>store := upsert ?x (store st)\<rparr>"
      have step: "process_batch self (c # cs) st = process_batch self cs ?st"
        using d Inr cid Cons.prems(1) by (simp add: store_add_object_def)
      have "c \<in> C" using Cons.prems(2) by simp
      then have "\<exists>c' \<in> C. stored_from c' (obj_properties ?x)"
        using data_object_stored_from[of c cid d] cid by auto
      then have x: "\<exists>c' \<in> C. stored_from c' (obj_properties ?x)" .
      have "\<forall>ob \<in> set (store ?st). \<exists>c \<in> C. stored_from c (obj_properties ob)"
      proof
        fix ob
        assume "ob \<in> set (store ?st)"
        then have "ob = ?x \<or> ob \<in> set (store st)"
          using set_upsert[of ?x "store st"] by auto
        then show "\<exists>c \<in> C. stored_from c (obj_properties ob)"
          using x Cons.prems(3) by blast
      qed
      moreover have "set cs \<subseteq> C" using Cons.prems(2) by simp
      ultimately show ?thesis
        using Cons.IH[OF Cons.prems(1), of ?st] step by simp
    qed
  qed
qed

text \<open>
  Claim C10, as the code has it.  Every object that \<^verbatim>\<open>process_batch\<close> writes to an empty
  store carries exactly the seven properties, built from a record of the batch: an
  optional field that the record lacks is stored with its default (the empty string, 0 or
  \<^verbatim>\<open>False\<close>), and a field that the record has is stored with the value of the record,
  which may be \<^verbatim>\<open>None\<close>.
\<close>

theorem process_batch_seven_properties:
  assumes "batch_add_object self = store_add_object" and "store st = []"
  shows "\<forall>ob \<in> set (store (snd (process_batch self compounds st))).
           \<exists>c \<in> set compounds. stored_from c (obj_properties ob)"
  using process_batch_stored_from[OF assms(1), of compounds "set compounds" st] assms(2)
  by simp

text \<open>The theorem at a batch of two records.\<close>

theorem process_batch_seven_properties_witness:
  "batch_add_object example_importer = store_add_object
   \<and> store empty_state = []
   \<and> list_all (\<lambda>ob. list_ex (\<lambda>c. stored_from c (obj_properties ob))
                          [aspirin, unnamed_compound])
         (store (snd (process_batch example_importer [aspirin, unnamed_compound] empty_state)))"
proof -
  have add: "batch_add_object example_importer = store_add_object"
    by (simp add: example_importer_def)
  have emp: "store empty_state = []" by (simp add: empty_state_def)
  from process_batch_seven_properties[OF add emp, of "[aspirin, unnamed_compound]"] add emp
  show ?thesis unfolding list_all_iff list_ex_iff by blast
qed

text \<open>
  Counterexample to C10 as stated: the record \<open>unnamed_compound\<close> has the key
  \<^verbatim>\<open>pref_name\<close> with the value \<^verbatim>\<open>None\<close>, as the ChEMBL JSON has it for a compound without
  a name, and \<^verbatim>\<open>compound.get("pref_name", "")\<close> stores that \<^verbatim>\<open>None\<close>.
\<close>

theorem process_batch_null_stored:
  "map (\<lambda>ob. obj_properties ob ''pref_name'')
     (store (snd (process_batch example_importer [unnamed_compound] empty_state)))
   = [Some PyNone]"
  by (simp add: example_defs)

section \<open>Importing a record again\<close>






section \<open>Properties of \<^verbatim>\<open>get_similar_compounds\<close>\<close>

lemmas query_example_defs = example_query_util_def example_store_def example_object_def
  example_metric_def example_uuid5_def store_objects_def limited_def query_get_def
  query_near_vector_def with_where_def with_limit_def with_additional_vector_def
  log_and_raise_def py_slice_to_def

lemma example_store_query: "collection_objects example_query_util
    = store_objects example_metric example_store"
  by (simp add: example_query_util_def)

lemma example_metric_normalized:
  "\<forall>v w. 0 \<le> example_metric v w \<and> example_metric v w \<le> 1"
  by (auto simp: example_metric_def split: list.splits)

lemma with_certainty_chembl_id:
  "with_certainty props c ''molecule_chembl_id'' = map_option Prop (props ''molecule_chembl_id'')"
  by (simp add: with_certainty_def)

lemma friendly_format_excluding_no_self:
  "friendly_format_excluding chembl_id objs = Inr rs \<Longrightarrow>
   \<forall>e \<in> set rs. e ''molecule_chembl_id'' \<noteq> Some (Prop (PyStr chembl_id))"
proof (induction objs arbitrary: rs)
  case Nil
  then show ?case by simp
next
  case (Cons obj objs)
  then show ?case
    by (auto simp: with_certainty_chembl_id split: option.splits if_splits sum.splits)
qed

lemma set_py_slice_to: "set (py_slice_to n xs) \<subseteq> set xs"
  by (auto simp: py_slice_to_def dest: in_set_takeD)

lemma length_py_slice_to: "0 \<le> n \<Longrightarrow> int (length (py_slice_to n xs)) \<le> n"
  by (simp add: py_slice_to_def)

lemma log_and_raise_Inr: "log_and_raise p lg r = (Inr x, lg') \<Longrightarrow> r = Inr x \<and> lg' = lg"
  by (auto simp: log_and_raise_def split: sum.splits)

lemma get_similar_compounds_body_Inr:
  assumes "get_similar_compounds_body self chembl_id limit = Inr res"
  shows "\<exists>ref others similar rs.
           collection_objects self
             (with_additional_vector
                (with_where (Where [''molecule_chembl_id''] ''Equal'' (ValueString chembl_id))
                   query_get)) = Inr (ref # others)
           \<and> collection_objects self (query_near_vector (vector ref) (limit + 1)) = Inr similar
           \<and> friendly_format_excluding chembl_id similar = Inr rs
           \<and> res = py_slice_to limit rs"
  using assms
  by (auto simp: get_similar_compounds_body_def Let_def split: sum.splits list.splits)

text \<open>
  Claim C5, as the code has it.  Whatever the store returns and whatever the limit, a result
  of \<^verbatim>\<open>get_similar_compounds\<close> has no entry whose \<^verbatim>\<open>molecule_chembl_id\<close> is the reference
  identifier; for a limit that is not negative it has at most \<^verbatim>\<open>limit\<close> entries; the
  nearest-neighbour query it was cut from asked for \<^verbatim>\<open>limit + 1\<close> objects.
\<close>

theorem get_similar_compounds_excludes_reference:
  assumes "get_similar_compounds self chembl_id limit lg = (Inr res, lg')"
  shows "(\<forall>e \<in> set res. e ''molecule_chembl_id'' \<noteq> Some (Prop (PyStr chembl_id)))
         \<and> (0 \<le> limit \<longrightarrow> int (length res) \<le> limit)
         \<and> (\<exists>ref others similar rs.
               collection_objects self
                 (with_additional_vector
                    (with_where (Where [''molecule_chembl_id''] ''Equal'' (ValueString chembl_id))
                       query_get)) = Inr (ref # others)
               \<and> collection_objects self (query_near_vector (vector ref) (limit + 1))
                   = Inr similar
               \<and> friendly_format_excluding chembl_id similar = Inr rs
               \<and> res = py_slice_to limit rs)"
proof -
  from assms have body: "get_similar_compounds_body self chembl_id limit = Inr res"
    by (auto simp: get_similar_compounds_def dest: log_and_raise_Inr)
  from get_similar_compounds_body_Inr[OF body] obtain ref others similar rs where
    q: "collection_objects self
          (with_additional_vector
             (with_where (Where [''molecule_chembl_id''] ''Equal'' (ValueString chembl_id))
                query_get)) = Inr (ref # others)"
       "collection_objects self (query_near_vector (vector ref) (limit + 1)) = Inr similar"
    and rs: "friendly_format_excluding chembl_id similar = Inr rs"
    and res: "res = py_slice_to limit rs"
    by blast
  have "\<forall>e \<in> set res. e ''molecule_chembl_id'' \<noteq> Some (Prop (PyStr chembl_id))"
    using friendly_format_excluding_no_self[OF rs] set_py_slice_to[of limit rs] res by blast
  moreover have "0 \<le> limit \<longrightarrow> int (length res) \<le> limit"
    using res by (simp add: length_py_slice_to)
  ultimately show ?thesis using q rs res by blast
qed

text \<open>The theorem at the reference \<^verbatim>\<open>CHEMBL25\<close> and the limit 2 on the example store.\<close>

theorem get_similar_compounds_excludes_reference_witness:
  "get_similar_compounds example_query_util ''CHEMBL25'' 2 []
     = (Inr [with_certainty (obj_properties (example_object ''CHEMBL20'' 2 (1/2))) (3/4),
             with_certainty (obj_properties (example_object ''CHEMBL40'' 4 1)) (3/4)], [])
   \<and> list_all (\<lambda>e. e ''molecule_chembl_id'' \<noteq> Some (Prop (PyStr ''CHEMBL25'')))
        [with_certainty (obj_properties (example_object ''CHEMBL20'' 2 (1/2))) (3/4),
         with_certainty (obj_properties (example_object ''CHEMBL40'' 4 1)) (3/4)]"
proof -
  have run: "get_similar_compounds example_query_util ''CHEMBL25'' 2 []
     = (Inr [with_certainty (obj_properties (example_object ''CHEMBL20'' 2 (1/2))) (3/4),
             with_certainty (obj_properties (example_object ''CHEMBL40'' 4 1)) (3/4)], [])"
    by (simp add: get_similar_compounds_def get_similar_compounds_body_def query_example_defs)
  from get_similar_compounds_excludes_reference[OF run] run
  show ?thesis unfolding list_all_iff by blast
qed

text \<open>
  Counterexample to C5 as stated: for the limit -1 the query asks for 0 objects and the
  slice \<^verbatim>\<open>[:-1]\<close> drops the last entry; the result is a list, here the empty one, and its
  length is not at most -1.
\<close>

theorem get_similar_compounds_negative_limit:
  "get_similar_compounds example_query_util ''CHEMBL25'' (- 1) [] = (Inr [], [])
   \<and> \<not> int (length ([] :: result_entry list)) \<le> - 1"
  by (simp add: get_similar_compounds_def get_similar_compounds_body_def query_example_defs)

lemma store_objects_no_match:
  assumes "\<forall>ob \<in> set objs. obj_properties ob ''molecule_chembl_id'' \<noteq> Some (PyStr chembl_id)"
  shows "store_objects metric objs
           (with_additional_vector
              (with_where (Where [''molecule_chembl_id''] ''Equal'' (ValueString chembl_id))
                 query_get)) = Inr []"
proof -
  have "filter (matches (Where [''molecule_chembl_id''] ''Equal'' (ValueString chembl_id))) objs
          = []"
    using assms by (simp add: filter_empty_conv)
  then show ?thesis
    by (simp add: store_objects_def with_additional_vector_def with_where_def query_get_def
        limited_def)
qed

text \<open>
  Claim C6.  When no object of the store has the property \<^verbatim>\<open>molecule_chembl_id\<close> equal to
  \<^verbatim>\<open>chembl_id\<close>, \<^verbatim>\<open>get_similar_compounds\<close> raises the \<^verbatim>\<open>ValueError\<close> "No compound found"
  (the NotFound of the spec), after logging it, and returns no list.
\<close>

theorem get_similar_compounds_not_found:
  assumes "collection_objects self = store_objects metric objs"
    and "\<forall>ob \<in> set objs. obj_properties ob ''molecule_chembl_id'' \<noteq> Some (PyStr chembl_id)"
  shows "get_similar_compounds self chembl_id limit lg =
           (Inl (ValueError (''No compound found with ChEMBL ID: '' @ chembl_id)),
            lg @ [(ERROR, ''Error finding similar compounds: ''
                            @ ''No compound found with ChEMBL ID: '' @ chembl_id)])"
  using store_objects_no_match[OF assms(2), of metric] assms(1)
  by (simp add: get_similar_compounds_def get_similar_compounds_body_def log_and_raise_def)

text \<open>The theorem at the identifier \<^verbatim>\<open>CHEMBL999\<close>, which the example store does not hold.\<close>

theorem get_similar_compounds_not_found_witness:
  "collection_objects example_query_util = store_objects example_metric example_store
   \<and> list_all (\<lambda>ob. obj_properties ob ''molecule_chembl_id'' \<noteq> Some (PyStr ''CHEMBL999''))
        example_store
   \<and> fst (get_similar_compounds example_query_util ''CHEMBL999'' 3 [])
       = Inl (ValueError ''No compound found with ChEMBL ID: CHEMBL999'')"
proof -
  have no: "\<forall>ob \<in> set example_store.
              obj_properties ob ''molecule_chembl_id'' \<noteq> Some (PyStr ''CHEMBL999'')"
    by (simp add: example_store_def example_object_def)
  from get_similar_compounds_not_found[OF example_store_query no, of 3 "[]"]
  have "fst (get_similar_compounds example_query_util ''CHEMBL999'' 3 [])
       = Inl (ValueError ''No compound found with ChEMBL ID: CHEMBL999'')"
    by simp
  with example_store_query no show ?thesis unfolding list_all_iff by blast
qed

section \<open>Properties of \<^verbatim>\<open>semantic_search\<close>\<close>

lemma score_with_certainty: "score (with_certainty props c) = Some c"
  by (simp add: score_def with_certainty_def)

lemma friendly_format_Inr:
  "friendly_format objs = Inr rs \<Longrightarrow>
   \<exists>ds. map distance objs = map Some ds
        \<and> rs = map2 (\<lambda>ob d. with_certainty (properties ob) (1 - d)) objs ds"
proof (induction objs arbitrary: rs)
  case Nil
  then show ?case by simp
next
  case (Cons obj objs)
  from Cons.prems obtain d rs' where d: "distance obj = Some d"
    and rs': "friendly_format objs = Inr rs'"
    and rs: "rs = with_certainty (properties obj) (1 - d) # rs'"
    by (auto split: option.splits sum.splits)
  from Cons.IH[OF rs'] obtain ds where
    ds: "map distance objs = map Some ds"
        "rs' = map2 (\<lambda>ob d. with_certainty (properties ob) (1 - d)) objs ds"
    by blast
  have "map distance (obj # objs) = map Some (d # ds)" using d ds by simp
  moreover have "rs = map2 (\<lambda>ob d. with_certainty (properties ob) (1 - d)) (obj # objs) (d # ds)"
    using rs ds by simp
  ultimately show ?case by blast
qed

lemma map2_scores:
  "length objs = length ds \<Longrightarrow>
   map score (map2 (\<lambda>ob d. with_certainty (properties ob) (1 - d)) objs ds)
     = map (\<lambda>d. Some (1 - d)) ds"
  by (induction objs ds rule: list_induct2) (simp_all add: score_with_certainty)

lemma store_objects_near_distances:
  assumes "store_objects metric objs q = Inr results"
    and "q_near_vector q = Some (Some v)"
    and "map distance results = map Some ds"
  shows "sorted ds \<and> (\<forall>d \<in> set ds. \<exists>ob \<in> set objs. d = metric v (obj_vector ob))"
proof -
  define matching where
    "matching = (case q_where q of None \<Rightarrow> objs | Some w \<Rightarrow> filter (matches w) objs)"
  define ranked where
    "ranked = limited (q_limit q) (sort_key (\<lambda>ob. metric v (obj_vector ob)) matching)"
  have sub: "set ranked \<subseteq> set objs"
    by (auto simp: ranked_def matching_def limited_def split: option.splits dest: in_set_takeD)
  have srt: "sorted (map (\<lambda>ob. metric v (obj_vector ob)) ranked)"
    by (auto simp: ranked_def limited_def take_map[symmetric] sorted_wrt_take
        split: option.splits)
  from assms(1,2) have res: "map distance results =
      map (\<lambda>ob. if q_return_distance q then Some (metric v (obj_vector ob)) else None) ranked"
    by (auto simp: store_objects_def Let_def ranked_def matching_def comp_def)
  show ?thesis
  proof (cases "q_return_distance q")
    case True
    with res assms(3) have "map Some ds = map Some (map (\<lambda>ob. metric v (obj_vector ob)) ranked)"
      by (simp add: comp_def)
    then have "ds = map (\<lambda>ob. metric v (obj_vector ob)) ranked"
      by (rule map_injective) simp
    then show ?thesis using srt sub by auto
  next
    case False
    with res assms(3) have "map Some ds = map (\<lambda>ob. None) ranked" by simp
    then have "ds = []" by (cases ds; cases ranked) auto
    then show ?thesis by simp
  qed
qed

lemma sorted_one_minus: "sorted ds \<Longrightarrow> sorted_wrt (\<ge>) (map (\<lambda>d. 1 - d) (ds :: real list))"
  by (induction ds) auto

lemma semantic_search_body_Inr:
  assumes "semantic_search_body self query limit additional_filters = Inr res"
  shows "\<exists>emb results.
           query_encode self query = Inr emb
           \<and> collection_objects self
                 (case additional_filters of
                    None \<Rightarrow> query_near_vector (Some emb) limit
                  | Some w \<Rightarrow> with_where w (query_near_vector (Some emb) limit)) = Inr results
           \<and> friendly_format results = Inr res"
  using assms by (auto simp: semantic_search_body_def Let_def split: sum.splits)

text \<open>
  Claim C7.  Each entry that \<^verbatim>\<open>semantic_search\<close> returns is the properties of one object of
  the store's answer, in the order of the answer, with the score 1 minus the distance the
  store reports for that object.  On a store that ranks by distance the distances ascend
  and the scores descend, and when the metric of the store has its values in \<open>[0, 1]\<close>,
  so has every score.
\<close>

theorem semantic_search_scores:
  assumes store: "collection_objects self = store_objects metric objs"
    and run: "semantic_search self query limit additional_filters lg = (Inr res, lg')"
  shows "\<exists>emb results ds.
           query_encode self query = Inr emb
           \<and> collection_objects self
                 (case additional_filters of
                    None \<Rightarrow> query_near_vector (Some emb) limit
                  | Some w \<Rightarrow> with_where w (query_near_vector (Some emb) limit)) = Inr results
           \<and> map distance results = map Some ds
           \<and> res = map2 (\<lambda>ob d. with_certainty (properties ob) (1 - d)) results ds
           \<and> map score res = map (\<lambda>d. Some (1 - d)) ds
           \<and> sorted ds
           \<and> sorted_wrt (\<ge>) (map (\<lambda>d. 1 - d) ds)
           \<and> ((\<forall>v w. 0 \<le> metric v w \<and> metric v w \<le> 1)
                \<longrightarrow> (\<forall>d \<in> set ds. 0 \<le> 1 - d \<and> 1 - d \<le> 1))"
proof -
  from run have "semantic_search_body self query limit additional_filters = Inr res"
    by (auto simp: semantic_search_def dest: log_and_raise_Inr)
  from semantic_search_body_Inr[OF this] obtain emb results where
    emb: "query_encode self query = Inr emb"
    and results: "collection_objects self
                 (case additional_filters of
                    None \<Rightarrow> query_near_vector (Some emb) limit
                  | Some w \<Rightarrow> with_where w (query_near_vector (Some emb) limit)) = Inr results"
    and ff: "friendly_format results = Inr res"
    by blast
  from friendly_format_Inr[OF ff] obtain ds where
    ds: "map distance results = map Some ds"
    and res: "res = map2 (\<lambda>ob d. with_certainty (properties ob) (1 - d)) results ds"
    by blast
  have len: "length results = length ds"
    using ds by (metis length_map)
  have sc: "map score res = map (\<lambda>d. Some (1 - d)) ds"
    unfolding res using len by (rule map2_scores)
  let ?q = "case additional_filters of
              None \<Rightarrow> query_near_vector (Some emb) limit
            | Some w \<Rightarrow> with_where w (query_near_vector (Some emb) limit)"
  have near: "q_near_vector ?q = Some (Some emb)"
    by (simp add: query_near_vector_def with_where_def split: option.splits)
  have so: "store_objects metric objs ?q = Inr results"
    using results store by simp
  from store_objects_near_distances[OF so near ds]
  have srt: "sorted ds"
    and dist: "\<forall>d \<in> set ds. \<exists>ob \<in> set objs. d = metric emb (obj_vector ob)"
    by blast+
  have desc: "sorted_wrt (\<ge>) (map (\<lambda>d. 1 - d) ds)"
    using srt by (rule sorted_one_minus)
  have range: "(\<forall>v w. 0 \<le> metric v w \<and> metric v w \<le> 1)
                \<longrightarrow> (\<forall>d \<in> set ds. 0 \<le> 1 - d \<and> 1 - d \<le> 1)"
    using dist by fastforce
  from emb results ds res sc srt desc range show ?thesis by blast
qed

text \<open>The theorem at the query \<^verbatim>\<open>aspirin\<close> and the limit 3 on the example store.\<close>

theorem semantic_search_scores_witness:
  "collection_objects example_query_util = store_objects example_metric example_store
   \<and> semantic_search example_query_util ''aspirin'' 3 None []
       = (Inr [with_certainty (obj_properties (example_object ''CHEMBL25'' 4 (3/4))) (19/20),
               with_certainty (obj_properties (example_object ''CHEMBL20'' 2 (1/2))) (4/5),
               with_certainty (obj_properties (example_object ''CHEMBL40'' 4 1)) (7/10)], [])
   \<and> (\<forall>v w. 0 \<le> example_metric v w \<and> example_metric v w \<le> 1)
   \<and> (\<exists>ds. map score
               [with_certainty (obj_properties (example_object ''CHEMBL25'' 4 (3/4))) (19/20),
                with_certainty (obj_properties (example_object ''CHEMBL20'' 2 (1/2))) (4/5),
                with_certainty (obj_properties (example_object ''CHEMBL40'' 4 1)) (7/10)]
              = map (\<lambda>d. Some (1 - d)) ds
            \<and> sorted ds \<and> sorted_wrt (\<ge>) (map (\<lambda>d. 1 - d) ds)
            \<and> list_all (\<lambda>d. 0 \<le> 1 - d \<and> 1 - d \<le> 1) ds)"
proof -
  have run: "semantic_search example_query_util ''aspirin'' 3 None []
       = (Inr [with_certainty (obj_properties (example_object ''CHEMBL25'' 4 (3/4))) (19/20),
               with_certainty (obj_properties (example_object ''CHEMBL20'' 2 (1/2))) (4/5),
               with_certainty (obj_properties (example_object ''CHEMBL40'' 4 1)) (7/10)], [])"
    by (simp add: semantic_search_def semantic_search_body_def query_example_defs)
  from semantic_search_scores[OF example_store_query run] example_metric_normalized
    example_store_query run
  show ?thesis unfolding list_all_iff by blast
qed

section \<open>Properties of \<^verbatim>\<open>filter_by_phase\<close>\<close>







end
